theory Spec2Isabelle
  imports Complex_Main
begin

section \<open>Python strings\<close>

text \<open>
  A Python \<open>str\<close> is a sequence of Unicode code points. A code point is a natural
  number, a string a list of them: the reply of the Wi-Fi category and the first default
  amenity contain U+2011 (NON-BREAKING HYPHEN, 8209), which is no ASCII character.
  \<open>ascii\<close> reads an ASCII literal as such a string.
\<close>

type_synonym codepoint = nat
type_synonym str = "codepoint list"

definition ascii :: "string \<Rightarrow> str" where
  "ascii s = map of_char s"

text \<open>
  \<open>str.lower()\<close>. On the ASCII range it maps \<open>A..Z\<close> (65..90) to \<open>a..z\<close>
  and leaves every other code point alone, whatever surrounds it. Beyond ASCII it follows
  the case tables of the Unicode database, which are no part of the repository: they are
  the parameter \<open>U\<close>, which gets the code points before, the code point itself and the
  code points after it (the lower case of capital sigma depends on its context) and
  returns the code points that replace it (one code point may lower to several).
\<close>

type_synonym unicode_lower = "str \<Rightarrow> codepoint \<Rightarrow> str \<Rightarrow> str"

definition lower_ascii :: "codepoint \<Rightarrow> codepoint" where
  "lower_ascii c = (if 65 \<le> c \<and> c \<le> 90 then c + 32 else c)"

fun lower_from :: "unicode_lower \<Rightarrow> str \<Rightarrow> str \<Rightarrow> str" where
  "lower_from U seen [] = []"
| "lower_from U seen (c # rest) =
     (if c < 128 then [lower_ascii c] else U seen c rest) @ lower_from U (seen @ [c]) rest"

definition lower :: "unicode_lower \<Rightarrow> str \<Rightarrow> str" where
  "lower U s = lower_from U [] s"

text \<open>The case table that leaves every code point beyond ASCII as it is.\<close>

definition keep_case :: unicode_lower where
  "keep_case seen c rest = [c]"

text \<open>
  \<open>str.strip()\<close> with no argument removes leading and trailing whitespace, the code
  points for which \<open>str.isspace()\<close> holds.
\<close>

definition isspace :: "codepoint \<Rightarrow> bool" where
  "isspace c \<longleftrightarrow>
     (9 \<le> c \<and> c \<le> 13) \<or> (28 \<le> c \<and> c \<le> 32) \<or> c = 133 \<or> c = 160 \<or> c = 5760 \<or>
     (8192 \<le> c \<and> c \<le> 8202) \<or> c = 8232 \<or> c = 8233 \<or> c = 8239 \<or> c = 8287 \<or> c = 12288"

definition strip :: "str \<Rightarrow> str" where
  "strip s = rev (dropWhile isspace (rev (dropWhile isspace s)))"

text \<open>\<open>k in text\<close> on strings: \<open>k\<close> occurs in \<open>text\<close> as a contiguous substring.\<close>

fun starts_with :: "str \<Rightarrow> str \<Rightarrow> bool" where
  "starts_with [] t = True"
| "starts_with (k # ks) [] = False"
| "starts_with (k # ks) (c # cs) = (k = c \<and> starts_with ks cs)"

fun str_in :: "str \<Rightarrow> str \<Rightarrow> bool" where
  "str_in k [] = (k = [])"
| "str_in k (c # cs) = (starts_with k (c # cs) \<or> str_in k cs)"

text \<open>\<open>any(k in text for k in keywords)\<close>\<close>

definition any_in :: "string list \<Rightarrow> str \<Rightarrow> bool" where
  "any_in keywords text = list_ex (\<lambda>k. str_in (ascii k) text) keywords"

section \<open>The reply generator (main.py)\<close>

definition checkin_reply :: str where
  "checkin_reply = ascii ''Check-in is at 3:00 PM. Early check-in is subject to availability.''"

definition checkout_reply :: str where
  "checkout_reply =
     ascii ''Check-out is at 11:00 AM. Late check-out may be available upon request.''"

definition wifi_reply :: str where
  "wifi_reply =
     ascii ''Yes, complimentary high-speed Wi'' @ [8209] @
     ascii ''Fi is available throughout the property.''"

definition parking_reply :: str where
  "parking_reply =
     ascii ''Parking is available on-site. Please check with the front desk for rates and availability.''"

definition pet_reply :: str where
  "pet_reply = ascii ''We are pet-friendly for select rooms. A cleaning fee may apply.''"

definition amenities_reply :: str where
  "amenities_reply = ascii ''Our amenities include fitness center access from 6 AM to 10 PM.''"

definition rates_reply :: str where
  "rates_reply = ascii ''Standard rates start from $89 per night before taxes and fees.''"

definition fallback_reply :: str where
  "fallback_reply =
     ascii ''Thanks for reaching out! How can I assist with your stay, booking, or questions today?''"

definition generate_ai_reply :: "unicode_lower \<Rightarrow> str \<Rightarrow> str" where
  "generate_ai_reply U message =
     (let text = strip (lower U message) in
      if any_in [''check-in'', ''check in'', ''arrival''] text then checkin_reply
      else if any_in [''check-out'', ''check out'', ''departure''] text then checkout_reply
      else if any_in [''wifi'', ''wi-fi'', ''internet''] text then wifi_reply
      else if any_in [''parking'', ''car''] text then parking_reply
      else if any_in [''pet'', ''dog'', ''cat''] text then pet_reply
      else if any_in [''pool'', ''gym'', ''fitness'', ''spa''] text then amenities_reply
      else if any_in [''rate'', ''price'', ''cost''] text then rates_reply
      else fallback_reply)"

section \<open>Record definitions (schemas.py)\<close>

text \<open>
  The pydantic models. A validated instance is a record; the keyword arguments given to
  a model's constructor are a record of options, \<open>None\<close> for an argument that is not
  supplied, so that an \<open>Optional[T]\<close> field is supplied as \<open>Some None\<close> or
  \<open>Some (Some v)\<close>. Arguments have the field's declared type: a value of another
  type is excluded by the typing here. A Python \<open>int\<close> is an \<open>int\<close>; a
  \<open>float\<close> field holds a finite number, a \<open>real\<close>, which is all the
  source does with floats: two literals and the comparison \<open>ge=0\<close>.

  Construction fails with pydantic's \<open>ValidationError\<close> (the InvalidInput of the
  specification), which lists the offending fields in declaration order.
\<close>

datatype validation_error = InvalidInput "string list"

text \<open>
  \<open>EmailStr\<close> is checked by the email-validator package, outside the repository: the
  validator is a parameter, which returns the normalised address or \<open>None\<close> for
  a string that is no email address.
\<close>

type_synonym email_validator = "str \<Rightarrow> str option"

record Property =
  name :: str
  description :: "str option"
  address :: "str option"
  city :: "str option"
  country :: "str option"
  phone :: "str option"
  email :: "str option"
  website :: "str option"
  check_in_time :: "str option"
  check_out_time :: "str option"
  amenities :: "str list"
  currency :: str
  timezone :: "str option"
  rooms_total :: int
  rooms_available :: int
  min_rate :: "real option"
  max_rate :: "real option"

record Property_args =
  name :: "str option"
  description :: "str option option"
  address :: "str option option"
  city :: "str option option"
  country :: "str option option"
  phone :: "str option option"
  email :: "str option option"
  website :: "str option option"
  check_in_time :: "str option option"
  check_out_time :: "str option option"
  amenities :: "str list option"
  currency :: "str option"
  timezone :: "str option option"
  rooms_total :: "int option"
  rooms_available :: "int option"
  min_rate :: "real option option"
  max_rate :: "real option option"

text \<open>\<open>Field(default)\<close>: the supplied value, or the default.\<close>

definition or_default :: "'a option \<Rightarrow> 'a \<Rightarrow> 'a" where
  "or_default supplied d = (case supplied of None \<Rightarrow> d | Some v \<Rightarrow> v)"

text \<open>An optional \<open>EmailStr\<close>: \<open>None\<close> passes, a string must validate.\<close>

definition email_errors :: "email_validator \<Rightarrow> str option option \<Rightarrow> string list" where
  "email_errors E supplied =
     (case supplied of
        Some (Some e) \<Rightarrow> (if E e = None then [''email''] else [])
      | _ \<Rightarrow> [])"

definition email_value :: "email_validator \<Rightarrow> str option option \<Rightarrow> str option" where
  "email_value E supplied = (case supplied of Some (Some e) \<Rightarrow> E e | _ \<Rightarrow> None)"

text \<open>\<open>Field(..., ge=0)\<close> on an \<open>int\<close> and on an \<open>Optional[float]\<close>.\<close>

definition ge0_int_errors :: "string \<Rightarrow> int option \<Rightarrow> string list" where
  "ge0_int_errors field supplied =
     (case supplied of Some v \<Rightarrow> (if v \<ge> 0 then [] else [field]) | None \<Rightarrow> [])"

definition ge0_float_errors :: "string \<Rightarrow> real option option \<Rightarrow> string list" where
  "ge0_float_errors field supplied =
     (case supplied of Some (Some v) \<Rightarrow> (if v \<ge> 0 then [] else [field]) | _ \<Rightarrow> [])"

definition default_amenities :: "str list" where
  "default_amenities =
     [ascii ''Free Wi'' @ [8209] @ ascii ''Fi'', ascii ''Parking'', ascii ''Breakfast available'']"

definition Property_init :: "email_validator \<Rightarrow> Property_args \<Rightarrow> validation_error + Property" where
  "Property_init E a =
     (let errors =
            email_errors E (Property_args.email a) @
            ge0_int_errors ''rooms_total'' (Property_args.rooms_total a) @
            ge0_int_errors ''rooms_available'' (Property_args.rooms_available a) @
            ge0_float_errors ''min_rate'' (Property_args.min_rate a) @
            ge0_float_errors ''max_rate'' (Property_args.max_rate a)
      in case Property_args.name a of
           None \<Rightarrow> Inl (InvalidInput (''name'' # errors))
         | Some n \<Rightarrow>
             if errors \<noteq> [] then Inl (InvalidInput errors)
             else Inr \<lparr>Property.name = n,
                       Property.description = or_default (Property_args.description a) None,
                       Property.address = or_default (Property_args.address a) None,
                       Property.city = or_default (Property_args.city a) None,
                       Property.country = or_default (Property_args.country a) None,
                       Property.phone = or_default (Property_args.phone a) None,
                       Property.email = email_value E (Property_args.email a),
                       Property.website = or_default (Property_args.website a) None,
                       Property.check_in_time =
                         or_default (Property_args.check_in_time a) (Some (ascii ''3:00 PM'')),
                       Property.check_out_time =
                         or_default (Property_args.check_out_time a) (Some (ascii ''11:00 AM'')),
                       Property.amenities =
                         or_default (Property_args.amenities a) default_amenities,
                       Property.currency = or_default (Property_args.currency a) (ascii ''USD''),
                       Property.timezone = or_default (Property_args.timezone a) None,
                       Property.rooms_total = or_default (Property_args.rooms_total a) 20,
                       Property.rooms_available = or_default (Property_args.rooms_available a) 20,
                       Property.min_rate = or_default (Property_args.min_rate a) (Some 79),
                       Property.max_rate = or_default (Property_args.max_rate a) (Some 249)\<rparr>)"

text \<open>\<open>Property(name=n)\<close>: only the name is supplied.\<close>

definition only_name :: "str \<Rightarrow> Property_args" where
  "only_name n =
     \<lparr>Property_args.name = Some n, Property_args.description = None,
      Property_args.address = None, Property_args.city = None, Property_args.country = None,
      Property_args.phone = None, Property_args.email = None, Property_args.website = None,
      Property_args.check_in_time = None, Property_args.check_out_time = None,
      Property_args.amenities = None, Property_args.currency = None,
      Property_args.timezone = None, Property_args.rooms_total = None,
      Property_args.rooms_available = None, Property_args.min_rate = None,
      Property_args.max_rate = None\<rparr>"

record Faq =
  question :: str
  answer :: str
  tags :: "str list"

datatype role = Role_user | Role_assistant

record ConversationMessage =
  role :: role
  content :: str
  lang :: "str option"

datatype conversation_status = Status_open | Status_closed

datatype conversation_source =
  Source_web | Source_kiosk | Source_sms | Source_whatsapp | Source_phone

record Conversation =
  visitor_id :: str
  messages :: "ConversationMessage list"
  status :: conversation_status
  source :: conversation_source

text \<open>
  \<open>Conversation(visitor_id=..., messages=..., status=..., source=...)\<close>; the last three
  have defaults. With arguments of the declared types no check can fail.
\<close>

definition Conversation_init ::
  "str \<Rightarrow> ConversationMessage list option \<Rightarrow> conversation_status option \<Rightarrow>
   conversation_source option \<Rightarrow> Conversation" where
  "Conversation_init v ms st src =
     \<lparr>Conversation.visitor_id = v,
      Conversation.messages = or_default ms [],
      Conversation.status = or_default st Status_open,
      Conversation.source = or_default src Source_web\<rparr>"

datatype lead_status = Lead_new | Lead_contacted | Lead_qualified | Lead_booked | Lead_closed

record Lead =
  name :: "str option"
  email :: "str option"
  phone :: "str option"
  message :: "str option"
  conversation_id :: "str option"
  status :: lead_status

text \<open>A \<open>datetime.date\<close>, as its year, month and day.\<close>

datatype date = Date (year: nat) (month: nat) (day: nat)

record BookingRequest =
  full_name :: str
  email :: str
  phone :: "str option"
  check_in :: date
  check_out :: date
  adults :: int
  children :: int
  special_requests :: "str option"
  estimated_rate :: "real option"
  currency :: str
  conversation_id :: "str option"

record BookingRequest_args =
  full_name :: "str option"
  email :: "str option"
  phone :: "str option option"
  check_in :: "date option"
  check_out :: "date option"
  adults :: "int option"
  children :: "int option"
  special_requests :: "str option option"
  estimated_rate :: "real option option"
  currency :: "str option"
  conversation_id :: "str option option"

text \<open>A required field: missing when it is not supplied.\<close>

definition required_errors :: "string \<Rightarrow> 'a option \<Rightarrow> string list" where
  "required_errors field supplied = (case supplied of None \<Rightarrow> [field] | Some v \<Rightarrow> [])"

text \<open>
  The fields are validated one by one, in declaration order; \<open>check_in\<close> and
  \<open>check_out\<close> are each only required to be dates, and no validator compares them.
\<close>

definition BookingRequest_init ::
  "email_validator \<Rightarrow> BookingRequest_args \<Rightarrow> validation_error + BookingRequest" where
  "BookingRequest_init E a =
     (case (BookingRequest_args.full_name a,
            Option.bind (BookingRequest_args.email a) E,
            BookingRequest_args.check_in a,
            BookingRequest_args.check_out a) of
        (Some n, Some e, Some d1, Some d2) \<Rightarrow>
          Inr \<lparr>BookingRequest.full_name = n,
               BookingRequest.email = e,
               BookingRequest.phone = or_default (BookingRequest_args.phone a) None,
               BookingRequest.check_in = d1,
               BookingRequest.check_out = d2,
               BookingRequest.adults = or_default (BookingRequest_args.adults a) 2,
               BookingRequest.children = or_default (BookingRequest_args.children a) 0,
               BookingRequest.special_requests =
                 or_default (BookingRequest_args.special_requests a) None,
               BookingRequest.estimated_rate =
                 or_default (BookingRequest_args.estimated_rate a) None,
               BookingRequest.currency =
                 or_default (BookingRequest_args.currency a) (ascii ''USD''),
               BookingRequest.conversation_id =
                 or_default (BookingRequest_args.conversation_id a) None\<rparr>
      | _ \<Rightarrow>
          Inl (InvalidInput
                 (required_errors ''full_name'' (BookingRequest_args.full_name a) @
                  (case BookingRequest_args.email a of
                     None \<Rightarrow> [''email'']
                   | Some e \<Rightarrow> (if E e = None then [''email''] else [])) @
                  required_errors ''check_in'' (BookingRequest_args.check_in a) @
                  required_errors ''check_out'' (BookingRequest_args.check_out a))))"

section \<open>The document store (database.py)\<close>

text \<open>
  \<open>database.py\<close> is imported by \<open>main.py\<close> and is not among the sources; the
  handlers call its \<open>create_document\<close> and \<open>get_documents\<close>. A stored document
  is the validated record it was made from, under its collection name and identifier.
\<close>

datatype document =
  Property_doc Property
| Faq_doc Faq
| Conversation_doc Conversation
| Lead_doc Lead
| BookingRequest_doc BookingRequest

text \<open>
  Modelled from the spec: the state of the store behind \<open>database.py\<close>:
  whether the live handle is present, the text of the error raised when it is absent,
  the documents (collection name, generated identifier, document; oldest first), and how
  many calls of \<open>create_document\<close> and \<open>get_documents\<close> have been made. What the database
  will do is not decided by the program: \<open>failure n\<close> is the error text with which
  call number \<open>n\<close> fails on a live handle, if it fails, and \<open>new_id n\<close> the
  identifier it generates if it is an insert that succeeds.
\<close>

record store =
  handle :: bool
  unavailable_text :: str
  documents :: "(string \<times> str \<times> document) list"
  calls :: nat
  failure :: "nat \<Rightarrow> str option"
  new_id :: "nat \<Rightarrow> str"

text \<open>
  Modelled from the spec: the exceptions that the operations of \<open>database.py\<close>
  raise, each with its text description \<open>str(e)\<close>.
\<close>

datatype exn = StorageUnavailable str | StorageError str

fun str_of :: "exn \<Rightarrow> str" where
  "str_of (StorageUnavailable t) = t"
| "str_of (StorageError t) = t"

text \<open>
  Modelled from the spec: the failures of the store operations of \<open>database.py\<close>.
  The exception that call number \<open>n\<close> raises, if any: StorageUnavailable when the
  live handle is absent, StorageError when the operation on the database fails.
\<close>

definition store_error :: "store \<Rightarrow> nat \<Rightarrow> exn option" where
  "store_error db n =
     (if \<not> handle db then Some (StorageUnavailable (unavailable_text db))
      else map_option StorageError (failure db n))"

text \<open>
  Modelled from the spec: \<open>create_document\<close> of \<open>database.py\<close>. It inserts the
  record as a new document into the named collection and returns the generated
  identifier as text; it fails with StorageUnavailable if the live handle is absent and
  with StorageError if the insert fails. One attempt is made, and a failed insert leaves
  the documents as they were.
\<close>

definition create_document :: "string \<Rightarrow> document \<Rightarrow> store \<Rightarrow> (exn + str) \<times> store" where
  "create_document collection_name data db =
     (let n = calls db; db' = db\<lparr>calls := n + 1\<rparr> in
      case store_error db n of
        Some e \<Rightarrow> (Inl e, db')
      | None \<Rightarrow>
          (Inr (new_id db n),
           db'\<lparr>documents := documents db @ [(collection_name, new_id db n, data)]\<rparr>))"

text \<open>
  Modelled from the spec: \<open>get_documents\<close> of \<open>database.py\<close>. It returns the
  documents of the named collection, at most \<open>limit\<close> of them, each with its
  identifier as text, and fails as \<open>create_document\<close> does. Every call site passes
  the empty filter, which matches every document; the filter is left out.
\<close>

definition get_documents ::
  "string \<Rightarrow> nat \<Rightarrow> store \<Rightarrow> (exn + (str \<times> document) list) \<times> store" where
  "get_documents collection_name limit db =
     (let n = calls db; db' = db\<lparr>calls := n + 1\<rparr> in
      case store_error db n of
        Some e \<Rightarrow> (Inl e, db')
      | None \<Rightarrow>
          (Inr (take limit (map snd (filter (\<lambda>d. fst d = collection_name) (documents db)))),
           db'))"

section \<open>The routes (main.py)\<close>

text \<open>
  A handler takes the validated request and the store and returns the response, or the
  \<open>HTTPException\<close> it raises, with the store it leaves. A response dictionary is the
  list of its items in order; its keys and the collection names are the ASCII literals
  of the source.
\<close>

record HTTPException =
  status_code :: nat
  detail :: str

type_synonym 'a http = "(HTTPException + 'a) \<times> store"

definition root :: "(string \<times> str) list" where
  "root = [(''service'', ascii ''AI Receptionist API''), (''status'', ascii ''ok'')]"

definition upsert_property :: "Property \<Rightarrow> store \<Rightarrow> (string \<times> str) list http" where
  "upsert_property payload db =
     (case create_document ''property'' (Property_doc payload) db of
        (Inr inserted_id, db') \<Rightarrow> (Inr [(''id'', inserted_id)], db')
      | (Inl e, db') \<Rightarrow> (Inl \<lparr>status_code = 500, detail = str_of e\<rparr>, db'))"

definition get_property_sample :: "store \<Rightarrow> (str \<times> document) list http" where
  "get_property_sample db =
     (case get_documents ''property'' 1 db of
        (Inr props, db') \<Rightarrow> (Inr props, db')
      | (Inl e, db') \<Rightarrow> (Inl \<lparr>status_code = 500, detail = str_of e\<rparr>, db'))"

definition add_faq :: "Faq \<Rightarrow> store \<Rightarrow> (string \<times> str) list http" where
  "add_faq faq db =
     (case create_document ''faq'' (Faq_doc faq) db of
        (Inr id', db') \<Rightarrow> (Inr [(''id'', id')], db')
      | (Inl e, db') \<Rightarrow> (Inl \<lparr>status_code = 500, detail = str_of e\<rparr>, db'))"

definition list_faqs :: "store \<Rightarrow> (str \<times> document) list http" where
  "list_faqs db =
     (case get_documents ''faq'' 50 db of
        (Inr docs, db') \<Rightarrow> (Inr docs, db')
      | (Inl e, db') \<Rightarrow> (Inl \<lparr>status_code = 500, detail = str_of e\<rparr>, db'))"

record ConversationIn =
  visitor_id :: str
  message :: str
  lang :: "str option"

definition start_conversation ::
  "unicode_lower \<Rightarrow> ConversationIn \<Rightarrow> store \<Rightarrow> (string \<times> str) list http" where
  "start_conversation U payload db =
     (let conv = Conversation_init (ConversationIn.visitor_id payload)
                   (Some [\<lparr>ConversationMessage.role = Role_user,
                           ConversationMessage.content = ConversationIn.message payload,
                           ConversationMessage.lang = ConversationIn.lang payload\<rparr>])
                   None None
      in case create_document ''conversation'' (Conversation_doc conv) db of
           (Inl e, db1) \<Rightarrow> (Inl \<lparr>status_code = 500, detail = str_of e\<rparr>, db1)
         | (Inr conv_id, db1) \<Rightarrow>
             (let ai_reply = generate_ai_reply U (ConversationIn.message payload) in
              case create_document ''conversation''
                     (Conversation_doc
                        (Conversation_init (ConversationIn.visitor_id payload)
                           (Some [\<lparr>ConversationMessage.role = Role_assistant,
                                   ConversationMessage.content = ai_reply,
                                   ConversationMessage.lang = ConversationIn.lang payload\<rparr>])
                           (Some Status_open) None))
                     db1 of
                (Inl e, db2) \<Rightarrow> (Inl \<lparr>status_code = 500, detail = str_of e\<rparr>, db2)
              | (Inr second_id, db2) \<Rightarrow>
                  (Inr [(''conversation_id'', conv_id), (''reply'', ai_reply)], db2)))"

definition add_message ::
  "unicode_lower \<Rightarrow> str \<Rightarrow> ConversationIn \<Rightarrow> store \<Rightarrow> (string \<times> str) list http" where
  "add_message U conversation_id' payload db =
     (case create_document ''conversation''
             (Conversation_doc
                (Conversation_init (ConversationIn.visitor_id payload)
                   (Some [\<lparr>ConversationMessage.role = Role_user,
                           ConversationMessage.content = ConversationIn.message payload,
                           ConversationMessage.lang = ConversationIn.lang payload\<rparr>])
                   (Some Status_open) None))
             db of
        (Inl e, db1) \<Rightarrow> (Inl \<lparr>status_code = 500, detail = str_of e\<rparr>, db1)
      | (Inr first_id, db1) \<Rightarrow>
          (let ai_reply = generate_ai_reply U (ConversationIn.message payload) in
           case create_document ''conversation''
                  (Conversation_doc
                     (Conversation_init (ConversationIn.visitor_id payload)
                        (Some [\<lparr>ConversationMessage.role = Role_assistant,
                                ConversationMessage.content = ai_reply,
                                ConversationMessage.lang = ConversationIn.lang payload\<rparr>])
                        (Some Status_open) None))
                  db1 of
             (Inl e, db2) \<Rightarrow> (Inl \<lparr>status_code = 500, detail = str_of e\<rparr>, db2)
           | (Inr second_id, db2) \<Rightarrow> (Inr [(''reply'', ai_reply)], db2)))"

definition create_lead :: "Lead \<Rightarrow> store \<Rightarrow> (string \<times> str) list http" where
  "create_lead lead db =
     (case create_document ''lead'' (Lead_doc lead) db of
        (Inr id', db') \<Rightarrow> (Inr [(''id'', id')], db')
      | (Inl e, db') \<Rightarrow> (Inl \<lparr>status_code = 500, detail = str_of e\<rparr>, db'))"

definition list_leads :: "store \<Rightarrow> (str \<times> document) list http" where
  "list_leads db =
     (case get_documents ''lead'' 50 db of
        (Inr docs, db') \<Rightarrow> (Inr docs, db')
      | (Inl e, db') \<Rightarrow> (Inl \<lparr>status_code = 500, detail = str_of e\<rparr>, db'))"

definition request_booking :: "BookingRequest \<Rightarrow> store \<Rightarrow> (string \<times> str) list http" where
  "request_booking br db =
     (case create_document ''bookingrequest'' (BookingRequest_doc br) db of
        (Inr id', db') \<Rightarrow> (Inr [(''id'', id')], db')
      | (Inl e, db') \<Rightarrow> (Inl \<lparr>status_code = 500, detail = str_of e\<rparr>, db'))"

definition list_bookings :: "store \<Rightarrow> (str \<times> document) list http" where
  "list_bookings db =
     (case get_documents ''bookingrequest'' 50 db of
        (Inr docs, db') \<Rightarrow> (Inr docs, db')
      | (Inl e, db') \<Rightarrow> (Inl \<lparr>status_code = 500, detail = str_of e\<rparr>, db'))"

text \<open>
  The routing table of the data routes: the request a client sends, and the handler that
  answers it.
\<close>

datatype request =
  POST_property Property
| GET_property
| POST_faqs Faq
| GET_faqs
| POST_conversations_start ConversationIn
| POST_conversations_message str ConversationIn
| POST_leads Lead
| GET_leads
| POST_bookings BookingRequest
| GET_bookings

datatype response = Dict "(string \<times> str) list" | Docs "(str \<times> document) list"

definition respond :: "('a \<Rightarrow> response) \<Rightarrow> 'a http \<Rightarrow> response http" where
  "respond f r = (map_sum id f (fst r), snd r)"

fun app :: "unicode_lower \<Rightarrow> request \<Rightarrow> store \<Rightarrow> response http" where
  "app U (POST_property payload) db = respond Dict (upsert_property payload db)"
| "app U GET_property db = respond Docs (get_property_sample db)"
| "app U (POST_faqs faq) db = respond Dict (add_faq faq db)"
| "app U GET_faqs db = respond Docs (list_faqs db)"
| "app U (POST_conversations_start payload) db = respond Dict (start_conversation U payload db)"
| "app U (POST_conversations_message conversation_id' payload) db =
     respond Dict (add_message U conversation_id' payload db)"
| "app U (POST_leads lead) db = respond Dict (create_lead lead db)"
| "app U GET_leads db = respond Docs (list_leads db)"
| "app U (POST_bookings br) db = respond Dict (request_booking br db)"
| "app U GET_bookings db = respond Docs (list_bookings db)"

text \<open>
  The invariant of the stored documents: a Conversation holds exactly one message and is
  open; documents of the other kinds are not concerned.
\<close>

definition single_open_message :: "document \<Rightarrow> bool" where
  "single_open_message d =
     (case d of
        Conversation_doc c \<Rightarrow>
          length (Conversation.messages c) = 1 \<and> Conversation.status c = Status_open
      | _ \<Rightarrow> True)"

text \<open>The two documents a conversation route persists for a request.\<close>

definition user_document :: "ConversationIn \<Rightarrow> document" where
  "user_document payload =
     Conversation_doc
       \<lparr>Conversation.visitor_id = ConversationIn.visitor_id payload,
        Conversation.messages =
          [\<lparr>ConversationMessage.role = Role_user,
            ConversationMessage.content = ConversationIn.message payload,
            ConversationMessage.lang = ConversationIn.lang payload\<rparr>],
        Conversation.status = Status_open,
        Conversation.source = Source_web\<rparr>"

definition assistant_document :: "unicode_lower \<Rightarrow> ConversationIn \<Rightarrow> document" where
  "assistant_document U payload =
     Conversation_doc
       \<lparr>Conversation.visitor_id = ConversationIn.visitor_id payload,
        Conversation.messages =
          [\<lparr>ConversationMessage.role = Role_assistant,
            ConversationMessage.content = generate_ai_reply U (ConversationIn.message payload),
            ConversationMessage.lang = ConversationIn.lang payload\<rparr>],
        Conversation.status = Status_open,
        Conversation.source = Source_web\<rparr>"

section \<open>Example inputs\<close>

text \<open>
  A stand-in for the email validator in the examples: it accepts a string that contains
  \<open>@\<close> (code point 64) and returns it as it is.
\<close>

definition example_validator :: email_validator where
  "example_validator e = (if 64 \<in> set e then Some e else None)"

text \<open>A booking request for a stay between two dates, with the required fields only.\<close>

definition example_booking :: "date \<Rightarrow> date \<Rightarrow> BookingRequest_args" where
  "example_booking d1 d2 =
     \<lparr>BookingRequest_args.full_name = Some (ascii ''Ada Guest''),
      BookingRequest_args.email = Some (ascii ''guest@example.com''),
      BookingRequest_args.phone = None,
      BookingRequest_args.check_in = Some d1,
      BookingRequest_args.check_out = Some d2,
      BookingRequest_args.adults = None,
      BookingRequest_args.children = None,
      BookingRequest_args.special_requests = None,
      BookingRequest_args.estimated_rate = None,
      BookingRequest_args.currency = None,
      BookingRequest_args.conversation_id = None\<rparr>"

text \<open>
  An empty store on a live handle, on which every call succeeds and call number \<open>n\<close>
  generates the identifier "id" followed by the digit \<open>n\<close>.
\<close>

definition example_store :: store where
  "example_store =
     \<lparr>handle = True, unavailable_text = ascii ''Database not available'', documents = [],
      calls = 0, failure = (\<lambda>n. None), new_id = (\<lambda>n. ascii ''id'' @ [48 + n])\<rparr>"

text \<open>The same store, on which the second call (number 1) fails.\<close>

definition example_failing_store :: store where
  "example_failing_store =
     example_store\<lparr>failure := (\<lambda>n. if n = 1 then Some (ascii ''insert failed'') else None)\<rparr>"

text \<open>The same store with no live handle.\<close>

definition example_unavailable_store :: store where
  "example_unavailable_store = example_store\<lparr>handle := False\<rparr>"

definition example_payload :: ConversationIn where
  "example_payload =
     \<lparr>ConversationIn.visitor_id = ascii ''v1'',
      ConversationIn.message = ascii ''Do you allow pets?'',
      ConversationIn.lang = Some (ascii ''en'')\<rparr>"

section \<open>Facts about the string operations\<close>

lemma starts_with_iff: "starts_with k t \<longleftrightarrow> (\<exists>s. t = k @ s)"
  by (induction k t rule: starts_with.induct) auto

lemma str_in_iff: "str_in k t \<longleftrightarrow> (\<exists>p s. t = p @ k @ s)"
proof (induction t)
  case Nil
  then show ?case by simp
next
  case (Cons c cs)
  show ?case
  proof
    assume "str_in k (c # cs)"
    then consider "starts_with k (c # cs)" | "str_in k cs" by auto
    then show "\<exists>p s. c # cs = p @ k @ s"
    proof cases
      case 1
      then obtain s where "c # cs = k @ s" by (auto simp: starts_with_iff)
      then have "c # cs = [] @ k @ s" by simp
      then show ?thesis by blast
    next
      case 2
      then obtain p s where "cs = p @ k @ s" using Cons.IH by blast
      then have "c # cs = (c # p) @ k @ s" by simp
      then show ?thesis by blast
    qed
  next
    assume "\<exists>p s. c # cs = p @ k @ s"
    then obtain p s where ps: "c # cs = p @ k @ s" by blast
    show "str_in k (c # cs)"
    proof (cases p)
      case Nil
      with ps have "starts_with k (c # cs)" by (auto simp: starts_with_iff)
      then show ?thesis by simp
    next
      case (Cons a p')
      with ps have "cs = p' @ k @ s" by simp
      then have "str_in k cs" using Cons.IH by blast
      then show ?thesis by simp
    qed
  qed
qed

text \<open>Evaluating the generator on a concrete message.\<close>

lemmas reply_eval =
  generate_ai_reply_def lower_def lower_ascii_def ascii_def strip_def isspace_def any_in_def

lemma pets_reply:
  "generate_ai_reply keep_case (ascii ''Do you allow pets?'') =
     ascii ''We are pet-friendly for select rooms. A cleaning fee may apply.''"
  by (simp add: reply_eval pet_reply_def)

section \<open>The store operations\<close>

lemma store_error_calls [simp]:
  "store_error (db\<lparr>calls := k\<rparr>) n = store_error db n"
  "store_error (db\<lparr>documents := ds\<rparr>) n = store_error db n"
  by (simp_all add: store_error_def)

lemma create_document_fails:
  "store_error db (calls db) = Some e \<Longrightarrow>
   create_document c d db = (Inl e, db\<lparr>calls := calls db + 1\<rparr>)"
  by (simp add: create_document_def Let_def)

lemma create_document_succeeds:
  "store_error db (calls db) = None \<Longrightarrow>
   create_document c d db =
     (Inr (new_id db (calls db)),
      db\<lparr>calls := calls db + 1, documents := documents db @ [(c, new_id db (calls db), d)]\<rparr>)"
  by (simp add: create_document_def Let_def)

lemma get_documents_fails:
  "store_error db (calls db) = Some e \<Longrightarrow>
   get_documents c l db = (Inl e, db\<lparr>calls := calls db + 1\<rparr>)"
  by (simp add: get_documents_def Let_def)

lemma get_documents_keeps: "documents (snd (get_documents c l db)) = documents db"
  by (simp add: get_documents_def Let_def split: option.split)

lemma example_store_no_error: "store_error example_store n = None"
  by (simp add: store_error_def example_store_def)

section \<open>The conversation routes\<close>

lemma start_conversation_documents:
  "Conversation_doc
     (Conversation_init (ConversationIn.visitor_id p)
        (Some [\<lparr>ConversationMessage.role = Role_user,
                ConversationMessage.content = ConversationIn.message p,
                ConversationMessage.lang = ConversationIn.lang p\<rparr>]) None None) =
   user_document p"
  "Conversation_doc
     (Conversation_init (ConversationIn.visitor_id p)
        (Some [\<lparr>ConversationMessage.role = Role_user,
                ConversationMessage.content = ConversationIn.message p,
                ConversationMessage.lang = ConversationIn.lang p\<rparr>]) (Some Status_open) None) =
   user_document p"
  "Conversation_doc
     (Conversation_init (ConversationIn.visitor_id p)
        (Some [\<lparr>ConversationMessage.role = Role_assistant,
                ConversationMessage.content = generate_ai_reply U (ConversationIn.message p),
                ConversationMessage.lang = ConversationIn.lang p\<rparr>]) (Some Status_open) None) =
   assistant_document U p"
  by (simp_all add: Conversation_init_def or_default_def user_document_def
      assistant_document_def)

lemma start_conversation_eq:
  "start_conversation U p db =
     (case create_document ''conversation'' (user_document p) db of
        (Inl e, db1) \<Rightarrow> (Inl \<lparr>status_code = 500, detail = str_of e\<rparr>, db1)
      | (Inr conv_id, db1) \<Rightarrow>
          (case create_document ''conversation'' (assistant_document U p) db1 of
             (Inl e, db2) \<Rightarrow> (Inl \<lparr>status_code = 500, detail = str_of e\<rparr>, db2)
           | (Inr second_id, db2) \<Rightarrow>
               (Inr [(''conversation_id'', conv_id),
                     (''reply'', generate_ai_reply U (ConversationIn.message p))], db2)))"
  by (simp add: start_conversation_def Let_def start_conversation_documents
      split: prod.split sum.split)

lemma add_message_eq:
  "add_message U c p db =
     (case create_document ''conversation'' (user_document p) db of
        (Inl e, db1) \<Rightarrow> (Inl \<lparr>status_code = 500, detail = str_of e\<rparr>, db1)
      | (Inr first_id, db1) \<Rightarrow>
          (case create_document ''conversation'' (assistant_document U p) db1 of
             (Inl e, db2) \<Rightarrow> (Inl \<lparr>status_code = 500, detail = str_of e\<rparr>, db2)
           | (Inr second_id, db2) \<Rightarrow>
               (Inr [(''reply'', generate_ai_reply U (ConversationIn.message p))], db2)))"
  by (simp add: add_message_def Let_def start_conversation_documents
      split: prod.split sum.split)

lemma start_conversation_succeeds:
  assumes "store_error db (calls db) = None" and "store_error db (calls db + 1) = None"
  shows "start_conversation U p db =
     (Inr [(''conversation_id'', new_id db (calls db)),
           (''reply'', generate_ai_reply U (ConversationIn.message p))],
      db\<lparr>calls := calls db + 2,
         documents := documents db @
           [(''conversation'', new_id db (calls db), user_document p),
            (''conversation'', new_id db (calls db + 1), assistant_document U p)]\<rparr>)"
  using assms by (simp add: start_conversation_eq create_document_succeeds)

lemma add_message_succeeds:
  assumes "store_error db (calls db) = None" and "store_error db (calls db + 1) = None"
  shows "add_message U c p db =
     (Inr [(''reply'', generate_ai_reply U (ConversationIn.message p))],
      db\<lparr>calls := calls db + 2,
         documents := documents db @
           [(''conversation'', new_id db (calls db), user_document p),
            (''conversation'', new_id db (calls db + 1), assistant_document U p)]\<rparr>)"
  using assms by (simp add: add_message_eq create_document_succeeds)

lemma start_conversation_first_fails:
  assumes "store_error db (calls db) = Some e"
  shows "start_conversation U p db =
     (Inl \<lparr>status_code = 500, detail = str_of e\<rparr>, db\<lparr>calls := calls db + 1\<rparr>)"
  using assms by (simp add: start_conversation_eq create_document_fails)

lemma add_message_first_fails:
  assumes "store_error db (calls db) = Some e"
  shows "add_message U c p db =
     (Inl \<lparr>status_code = 500, detail = str_of e\<rparr>, db\<lparr>calls := calls db + 1\<rparr>)"
  using assms by (simp add: add_message_eq create_document_fails)

lemma start_conversation_second_fails:
  assumes "store_error db (calls db) = None" and "store_error db (calls db + 1) = Some e"
  shows "start_conversation U p db =
     (Inl \<lparr>status_code = 500, detail = str_of e\<rparr>,
      db\<lparr>calls := calls db + 2,
         documents := documents db @ [(''conversation'', new_id db (calls db), user_document p)]\<rparr>)"
  using assms
  by (simp add: start_conversation_eq create_document_succeeds create_document_fails)

lemma add_message_second_fails:
  assumes "store_error db (calls db) = None" and "store_error db (calls db + 1) = Some e"
  shows "add_message U c p db =
     (Inl \<lparr>status_code = 500, detail = str_of e\<rparr>,
      db\<lparr>calls := calls db + 2,
         documents := documents db @ [(''conversation'', new_id db (calls db), user_document p)]\<rparr>)"
  using assms
  by (simp add: add_message_eq create_document_succeeds create_document_fails)

section \<open>Replies of the generator\<close>

text \<open>
  C2, as amended. If the lowercased, trimmed message contains one of "wifi", "wi-fi",
  "internet" and none of "check-in", "check in", "arrival", "check-out", "check out",
  "departure", the reply is the Wi-Fi answer of the source, character for character: its
  "Wi" and "Fi" are joined by U+2011 NON-BREAKING HYPHEN (code point 8209), not by the
  ASCII hyphen-minus (45).
\<close>

theorem generate_ai_reply_wifi:
  assumes "text = strip (lower U msg)"
    and "str_in (ascii ''wifi'') text \<or> str_in (ascii ''wi-fi'') text \<or>
         str_in (ascii ''internet'') text"
    and "\<not> str_in (ascii ''check-in'') text" and "\<not> str_in (ascii ''check in'') text"
    and "\<not> str_in (ascii ''arrival'') text"
    and "\<not> str_in (ascii ''check-out'') text" and "\<not> str_in (ascii ''check out'') text"
    and "\<not> str_in (ascii ''departure'') text"
  shows "generate_ai_reply U msg =
           ascii ''Yes, complimentary high-speed Wi'' @ [8209] @
           ascii ''Fi is available throughout the property.''"
  using assms by (auto simp add: generate_ai_reply_def any_in_def wifi_reply_def)

theorem generate_ai_reply_wifi_witness:
  "str_in (ascii ''wifi'') (strip (lower keep_case (ascii ''Is the WiFi free?''))) \<and>
   generate_ai_reply keep_case (ascii ''Is the WiFi free?'') =
     ascii ''Yes, complimentary high-speed Wi'' @ [8209] @
     ascii ''Fi is available throughout the property.''"
proof -
  have t: "strip (lower keep_case (ascii ''Is the WiFi free?'')) = ascii ''is the wifi free?''"
    by (simp add: lower_def lower_ascii_def ascii_def strip_def isspace_def)
  have w: "str_in (ascii ''wifi'') (ascii ''is the wifi free?'')"
    by (simp add: ascii_def)
  have n: "\<not> str_in (ascii ''check-in'') (ascii ''is the wifi free?'')"
    "\<not> str_in (ascii ''check in'') (ascii ''is the wifi free?'')"
    "\<not> str_in (ascii ''arrival'') (ascii ''is the wifi free?'')"
    "\<not> str_in (ascii ''check-out'') (ascii ''is the wifi free?'')"
    "\<not> str_in (ascii ''check out'') (ascii ''is the wifi free?'')"
    "\<not> str_in (ascii ''departure'') (ascii ''is the wifi free?'')"
    by (simp_all add: ascii_def)
  from generate_ai_reply_wifi [of "ascii ''is the wifi free?''" keep_case
      "ascii ''Is the WiFi free?''", OF t [symmetric] disjI1 [OF w] n]
  show ?thesis using t w by simp
qed

text \<open>
  C2, as stated, fails: the message "wifi" contains a Wi-Fi keyword and no check-in or
  check-out keyword, and the reply is not the string spelt with the ASCII hyphen.
\<close>

theorem generate_ai_reply_wifi_ascii_hyphen_counterexample:
  "str_in (ascii ''wifi'') (strip (lower keep_case (ascii ''wifi''))) \<and>
   \<not> any_in [''check-in'', ''check in'', ''arrival'', ''check-out'', ''check out'', ''departure'']
       (strip (lower keep_case (ascii ''wifi''))) \<and>
   generate_ai_reply keep_case (ascii ''wifi'') \<noteq>
     ascii ''Yes, complimentary high-speed Wi-Fi is available throughout the property.''"
  by (simp add: reply_eval wifi_reply_def)

text \<open>
  C3. A message whose lowercased, trimmed form contains a check-in keyword and a Wi-Fi
  keyword gets the check-in answer, since that category is tested first; so does
  "What time is check-in and is there wifi?", whatever the Unicode case tables are.
\<close>

theorem generate_ai_reply_checkin_before_wifi:
  "(\<forall>U msg.
      any_in [''check-in'', ''check in'', ''arrival''] (strip (lower U msg)) \<and>
      any_in [''wifi'', ''wi-fi'', ''internet''] (strip (lower U msg)) \<longrightarrow>
      generate_ai_reply U msg =
        ascii ''Check-in is at 3:00 PM. Early check-in is subject to availability.'') \<and>
   (\<forall>U. generate_ai_reply U (ascii ''What time is check-in and is there wifi?'') =
        ascii ''Check-in is at 3:00 PM. Early check-in is subject to availability.'')"
proof (intro conjI allI impI)
  fix U msg
  assume "any_in [''check-in'', ''check in'', ''arrival''] (strip (lower U msg)) \<and>
      any_in [''wifi'', ''wi-fi'', ''internet''] (strip (lower U msg))"
  then show "generate_ai_reply U msg =
        ascii ''Check-in is at 3:00 PM. Early check-in is subject to availability.''"
    by (simp add: generate_ai_reply_def checkin_reply_def)
next
  fix U
  have "strip (lower U (ascii ''What time is check-in and is there wifi?'')) =
        ascii ''what time is check-in and is there wifi?''"
    by (simp add: lower_def lower_ascii_def ascii_def strip_def isspace_def)
  moreover have "str_in (ascii ''check-in'') (ascii ''what time is check-in and is there wifi?'')"
    by (simp add: ascii_def)
  ultimately show "generate_ai_reply U (ascii ''What time is check-in and is there wifi?'') =
        ascii ''Check-in is at 3:00 PM. Early check-in is subject to availability.''"
    by (simp add: generate_ai_reply_def any_in_def checkin_reply_def)
qed

theorem generate_ai_reply_checkin_before_wifi_witness:
  "any_in [''check-in'', ''check in'', ''arrival'']
     (strip (lower keep_case (ascii ''Early arrival, any internet?''))) \<and>
   any_in [''wifi'', ''wi-fi'', ''internet'']
     (strip (lower keep_case (ascii ''Early arrival, any internet?''))) \<and>
   generate_ai_reply keep_case (ascii ''Early arrival, any internet?'') =
     ascii ''Check-in is at 3:00 PM. Early check-in is subject to availability.''"
proof -
  have t: "strip (lower keep_case (ascii ''Early arrival, any internet?'')) =
           ascii ''early arrival, any internet?''"
    by (simp add: lower_def lower_ascii_def ascii_def strip_def isspace_def)
  have h: "any_in [''check-in'', ''check in'', ''arrival''] (ascii ''early arrival, any internet?'') \<and>
           any_in [''wifi'', ''wi-fi'', ''internet''] (ascii ''early arrival, any internet?'')"
    by (simp add: any_in_def ascii_def)
  from generate_ai_reply_checkin_before_wifi
  have "any_in [''check-in'', ''check in'', ''arrival'']
          (strip (lower keep_case (ascii ''Early arrival, any internet?''))) \<and>
        any_in [''wifi'', ''wi-fi'', ''internet'']
          (strip (lower keep_case (ascii ''Early arrival, any internet?''))) \<longrightarrow>
        generate_ai_reply keep_case (ascii ''Early arrival, any internet?'') =
          ascii ''Check-in is at 3:00 PM. Early check-in is subject to availability.''"
    by blast
  with h t show ?thesis by simp
qed

text \<open>
  C9. A message whose lowercased, trimmed form contains none of the twenty keywords of
  the seven categories gets the fallback answer; "Can I get extra towels?" is one.
\<close>

theorem generate_ai_reply_fallback:
  "(\<forall>U msg.
      (\<forall>k \<in> set [''check-in'', ''check in'', ''arrival'', ''check-out'', ''check out'',
                 ''departure'', ''wifi'', ''wi-fi'', ''internet'', ''parking'', ''car'',
                 ''pet'', ''dog'', ''cat'', ''pool'', ''gym'', ''fitness'', ''spa'',
                 ''rate'', ''price'', ''cost''].
         \<not> str_in (ascii k) (strip (lower U msg))) \<longrightarrow>
      generate_ai_reply U msg =
        ascii ''Thanks for reaching out! How can I assist with your stay, booking, or questions today?'') \<and>
   (\<forall>U. generate_ai_reply U (ascii ''Can I get extra towels?'') =
        ascii ''Thanks for reaching out! How can I assist with your stay, booking, or questions today?'')"
proof (intro conjI allI impI)
  fix U msg
  assume "\<forall>k \<in> set [''check-in'', ''check in'', ''arrival'', ''check-out'', ''check out'',
                 ''departure'', ''wifi'', ''wi-fi'', ''internet'', ''parking'', ''car'',
                 ''pet'', ''dog'', ''cat'', ''pool'', ''gym'', ''fitness'', ''spa'',
                 ''rate'', ''price'', ''cost''].
         \<not> str_in (ascii k) (strip (lower U msg))"
  then show "generate_ai_reply U msg =
        ascii ''Thanks for reaching out! How can I assist with your stay, booking, or questions today?''"
    by (simp add: generate_ai_reply_def any_in_def fallback_reply_def)
next
  fix U
  have "strip (lower U (ascii ''Can I get extra towels?'')) = ascii ''can i get extra towels?''"
    by (simp add: lower_def lower_ascii_def ascii_def strip_def isspace_def)
  then show "generate_ai_reply U (ascii ''Can I get extra towels?'') =
        ascii ''Thanks for reaching out! How can I assist with your stay, booking, or questions today?''"
    by (simp add: generate_ai_reply_def any_in_def fallback_reply_def ascii_def)
qed

theorem generate_ai_reply_fallback_witness:
  "\<not> any_in [''check-in'', ''check in'', ''arrival'', ''check-out'', ''check out'',
             ''departure'', ''wifi'', ''wi-fi'', ''internet'', ''parking'', ''car'',
             ''pet'', ''dog'', ''cat'', ''pool'', ''gym'', ''fitness'', ''spa'',
             ''rate'', ''price'', ''cost'']
        (strip (lower keep_case (ascii ''Hello there'')))
   \<and> generate_ai_reply keep_case (ascii ''Hello there'') =
       ascii ''Thanks for reaching out! How can I assist with your stay, booking, or questions today?''"
proof -
  have t: "strip (lower keep_case (ascii ''Hello there'')) = ascii ''hello there''"
    by (simp add: lower_def lower_ascii_def ascii_def strip_def isspace_def)
  have n: "\<not> any_in [''check-in'', ''check in'', ''arrival'', ''check-out'', ''check out'',
             ''departure'', ''wifi'', ''wi-fi'', ''internet'', ''parking'', ''car'',
             ''pet'', ''dog'', ''cat'', ''pool'', ''gym'', ''fitness'', ''spa'',
             ''rate'', ''price'', ''cost'']
        (strip (lower keep_case (ascii ''Hello there'')))"
    unfolding t by (simp add: any_in_def ascii_def)
  then have h: "\<forall>k \<in> set [''check-in'', ''check in'', ''arrival'', ''check-out'', ''check out'',
               ''departure'', ''wifi'', ''wi-fi'', ''internet'', ''parking'', ''car'',
               ''pet'', ''dog'', ''cat'', ''pool'', ''gym'', ''fitness'', ''spa'',
               ''rate'', ''price'', ''cost''].
      \<not> str_in (ascii k) (strip (lower keep_case (ascii ''Hello there'')))"
    unfolding any_in_def list_ex_iff by blast
  from generate_ai_reply_fallback h
  have "generate_ai_reply keep_case (ascii ''Hello there'') =
       ascii ''Thanks for reaching out! How can I assist with your stay, booking, or questions today?''"
    by blast
  with n show ?thesis by blast
qed

section \<open>Construction of the records\<close>

text \<open>
  C6. Constructing a Property with no name fails with InvalidInput, which names the
  field; constructing one from a name alone succeeds and yields the defaults:
  check_in_time "3:00 PM", check_out_time "11:00 AM", rooms_total 20, rooms_available
  20, min_rate 79.0, max_rate 249.0, and the amenities "Free Wi-Fi" (spelt with U+2011,
  code point 8209), "Parking", "Breakfast available"; currency is "USD" and every other
  field is absent.
\<close>

theorem Property_init_name_and_defaults:
  "(\<forall>E a. Property_args.name a = None \<longrightarrow>
      (\<exists>fields. Property_init E a = Inl (InvalidInput fields) \<and> ''name'' \<in> set fields)) \<and>
   (\<forall>E n. Property_init E (only_name n) =
      Inr \<lparr>Property.name = n, Property.description = None, Property.address = None,
           Property.city = None, Property.country = None, Property.phone = None,
           Property.email = None, Property.website = None,
           Property.check_in_time = Some (ascii ''3:00 PM''),
           Property.check_out_time = Some (ascii ''11:00 AM''),
           Property.amenities =
             [ascii ''Free Wi'' @ [8209] @ ascii ''Fi'', ascii ''Parking'',
              ascii ''Breakfast available''],
           Property.currency = ascii ''USD'', Property.timezone = None,
           Property.rooms_total = 20, Property.rooms_available = 20,
           Property.min_rate = Some 79, Property.max_rate = Some 249\<rparr>)"
proof (intro conjI allI impI)
  fix E :: email_validator and a :: Property_args
  assume "Property_args.name a = None"
  then show "\<exists>fields. Property_init E a = Inl (InvalidInput fields) \<and> ''name'' \<in> set fields"
    by (simp add: Property_init_def Let_def)
next
  fix E n
  have "email_errors E None = []" "email_value E None = None"
    by (simp_all add: email_errors_def email_value_def)
  moreover have "ge0_int_errors f None = []" "ge0_float_errors f None = []" for f
    by (simp_all add: ge0_int_errors_def ge0_float_errors_def)
  ultimately show "Property_init E (only_name n) =
      Inr \<lparr>Property.name = n, Property.description = None, Property.address = None,
           Property.city = None, Property.country = None, Property.phone = None,
           Property.email = None, Property.website = None,
           Property.check_in_time = Some (ascii ''3:00 PM''),
           Property.check_out_time = Some (ascii ''11:00 AM''),
           Property.amenities =
             [ascii ''Free Wi'' @ [8209] @ ascii ''Fi'', ascii ''Parking'',
              ascii ''Breakfast available''],
           Property.currency = ascii ''USD'', Property.timezone = None,
           Property.rooms_total = 20, Property.rooms_available = 20,
           Property.min_rate = Some 79, Property.max_rate = Some 249\<rparr>"
    by (simp add: Property_init_def only_name_def or_default_def default_amenities_def)
qed

theorem Property_init_name_and_defaults_witness:
  "Property_args.name ((only_name (ascii ''Seaside Inn''))\<lparr>Property_args.name := None\<rparr>) = None \<and>
   Property_init example_validator
     ((only_name (ascii ''Seaside Inn''))\<lparr>Property_args.name := None\<rparr>) =
     Inl (InvalidInput [''name''])"
proof -
  let ?a = "(only_name (ascii ''Seaside Inn''))\<lparr>Property_args.name := None\<rparr>"
  have h: "Property_args.name ?a = None" by simp
  with Property_init_name_and_defaults
  obtain fields where f: "Property_init example_validator ?a = Inl (InvalidInput fields)"
    by blast
  have "Property_init example_validator ?a = Inl (InvalidInput [''name''])"
    by (simp add: Property_init_def only_name_def email_errors_def ge0_int_errors_def
        ge0_float_errors_def)
  with f h show ?thesis by simp
qed

text \<open>
  C7. A BookingRequest whose full name is supplied and whose email validates is
  constructed for every pair of dates, whichever of \<open>check_in\<close> and \<open>check_out\<close>
  is the earlier and also when they are equal: both dates are stored as given, and
  nothing compares them.
\<close>

theorem BookingRequest_init_any_dates:
  assumes "BookingRequest_args.full_name a = Some n"
    and "BookingRequest_args.email a = Some e" and "E e = Some e'"
    and "BookingRequest_args.check_in a = Some d1"
    and "BookingRequest_args.check_out a = Some d2"
  shows "\<exists>b. BookingRequest_init E a = Inr b \<and>
             BookingRequest.check_in b = d1 \<and> BookingRequest.check_out b = d2"
  using assms by (simp add: BookingRequest_init_def)

theorem BookingRequest_init_any_dates_witness:
  "example_validator (ascii ''guest@example.com'') = Some (ascii ''guest@example.com'') \<and>
   (\<exists>b. BookingRequest_init example_validator (example_booking (Date 2025 6 10) (Date 2025 6 1)) =
          Inr b \<and>
        BookingRequest.check_in b = Date 2025 6 10 \<and> BookingRequest.check_out b = Date 2025 6 1)"
proof -
  have v: "example_validator (ascii ''guest@example.com'') = Some (ascii ''guest@example.com'')"
    by (simp add: example_validator_def ascii_def)
  from BookingRequest_init_any_dates [of "example_booking (Date 2025 6 10) (Date 2025 6 1)"
      "ascii ''Ada Guest''" "ascii ''guest@example.com''" example_validator
      "ascii ''guest@example.com''" "Date 2025 6 10" "Date 2025 6 1", OF _ _ v]
  have "\<exists>b. BookingRequest_init example_validator
               (example_booking (Date 2025 6 10) (Date 2025 6 1)) = Inr b \<and>
            BookingRequest.check_in b = Date 2025 6 10 \<and>
            BookingRequest.check_out b = Date 2025 6 1"
    by (simp add: example_booking_def)
  with v show ?thesis by simp
qed

section \<open>Properties of the routes\<close>

text \<open>
  C1. When both inserts succeed, \<open>start_conversation\<close> appends two Conversation
  documents to the store: first one whose single message has role user and the supplied
  message as content, then one whose single message has role assistant and the
  generated reply as content. It returns the dictionary of \<open>conversation_id\<close>, the
  identifier generated for the first document, and \<open>reply\<close>, the generated reply;
  the identifier generated for the second document is no part of the response.
\<close>

theorem start_conversation_two_documents:
  assumes "store_error db (calls db) = None" and "store_error db (calls db + 1) = None"
  shows "\<exists>db'.
     start_conversation U
       \<lparr>ConversationIn.visitor_id = v, ConversationIn.message = m, ConversationIn.lang = l\<rparr> db =
       (Inr [(''conversation_id'', new_id db (calls db)), (''reply'', generate_ai_reply U m)],
        db') \<and>
     documents db' = documents db @
       [(''conversation'', new_id db (calls db),
         Conversation_doc
           \<lparr>Conversation.visitor_id = v,
            Conversation.messages =
              [\<lparr>ConversationMessage.role = Role_user, ConversationMessage.content = m,
                ConversationMessage.lang = l\<rparr>],
            Conversation.status = Status_open, Conversation.source = Source_web\<rparr>),
        (''conversation'', new_id db (calls db + 1),
         Conversation_doc
           \<lparr>Conversation.visitor_id = v,
            Conversation.messages =
              [\<lparr>ConversationMessage.role = Role_assistant,
                ConversationMessage.content = generate_ai_reply U m,
                ConversationMessage.lang = l\<rparr>],
            Conversation.status = Status_open, Conversation.source = Source_web\<rparr>)]"
  using start_conversation_succeeds [OF assms, of U
      "\<lparr>ConversationIn.visitor_id = v, ConversationIn.message = m, ConversationIn.lang = l\<rparr>"]
  by (simp add: user_document_def assistant_document_def)

theorem start_conversation_two_documents_witness:
  "store_error example_store (calls example_store) = None \<and>
   store_error example_store (calls example_store + 1) = None \<and>
   fst (start_conversation keep_case
          \<lparr>ConversationIn.visitor_id = ascii ''v1'',
           ConversationIn.message = ascii ''Do you allow pets?'',
           ConversationIn.lang = None\<rparr> example_store) =
     Inr [(''conversation_id'', ascii ''id0''),
          (''reply'', ascii ''We are pet-friendly for select rooms. A cleaning fee may apply.'')]"
proof -
  have e: "store_error example_store (calls example_store) = None"
    "store_error example_store (calls example_store + 1) = None"
    by (rule example_store_no_error)+
  from start_conversation_two_documents [OF e, of keep_case "ascii ''v1''"
      "ascii ''Do you allow pets?''" None]
  have "fst (start_conversation keep_case
          \<lparr>ConversationIn.visitor_id = ascii ''v1'',
           ConversationIn.message = ascii ''Do you allow pets?'',
           ConversationIn.lang = None\<rparr> example_store) =
     Inr [(''conversation_id'', new_id example_store (calls example_store)),
          (''reply'', generate_ai_reply keep_case (ascii ''Do you allow pets?''))]"
    by auto
  moreover have "new_id example_store (calls example_store) = ascii ''id0''"
    by (simp add: example_store_def ascii_def)
  ultimately show ?thesis using e by (simp add: pets_reply)
qed

text \<open>
  C4. Whatever the request and the store, a data route only appends to the documents,
  and every Conversation document it appends holds exactly one message and has status
  open. (The two remaining routes, \<open>/\<close> and \<open>/test\<close>, call neither
  \<open>create_document\<close> nor \<open>get_documents\<close>.)
\<close>

theorem persisted_conversations_single_open_message:
  "\<exists>new. documents (snd (app U r db)) = documents db @ new \<and>
          list_all (\<lambda>(collection_name, identifier, d). single_open_message d) new"
proof -
  have ins: "\<exists>new. documents (snd (create_document c d db)) = documents db @ new \<and>
          list_all (\<lambda>(collection_name, identifier, d). single_open_message d) new"
    if "single_open_message d" for c d
    using that by (cases "store_error db (calls db)")
      (simp_all add: create_document_fails create_document_succeeds)
  have one: "documents (snd (case create_document c d db of
                 (Inr i, db') \<Rightarrow> (Inr (f i), db')
               | (Inl e, db') \<Rightarrow> (Inl (g e), db'))) =
             documents (snd (create_document c d db))" for c d f g
    by (simp split: prod.split sum.split)
  have conv: "single_open_message (user_document p)"
    "single_open_message (assistant_document U p)" for p
    by (simp_all add: single_open_message_def user_document_def assistant_document_def)
  have two: "\<exists>new. documents (snd h) = documents db @ new \<and>
          list_all (\<lambda>(collection_name, identifier, d). single_open_message d) new"
    if "h = start_conversation U p db \<or> h = add_message U c p db" for h p c
  proof (cases "store_error db (calls db)")
    case (Some e)
    with that show ?thesis
      by (auto simp add: start_conversation_first_fails add_message_first_fails)
  next
    case None
    show ?thesis
    proof (cases "store_error db (calls db + 1)")
      case (Some e)
      with None that show ?thesis
        by (auto simp add: start_conversation_second_fails add_message_second_fails conv)
    next
      case n2: None
      with None that show ?thesis
        by (auto simp add: start_conversation_succeeds add_message_succeeds conv)
    qed
  qed
  show ?thesis
  proof (cases r)
    case (POST_property x)
    have "single_open_message (Property_doc x)" by (simp add: single_open_message_def)
    from ins [OF this, of "''property''"] and \<open>r = _\<close> show ?thesis
      by (simp add: respond_def upsert_property_def one)
  next
    case GET_property
    then show ?thesis
      by (simp add: respond_def get_property_sample_def get_documents_def Let_def
          split: option.split)
  next
    case (POST_faqs x)
    have "single_open_message (Faq_doc x)" by (simp add: single_open_message_def)
    from ins [OF this, of "''faq''"] and \<open>r = _\<close> show ?thesis
      by (simp add: respond_def add_faq_def one)
  next
    case GET_faqs
    then show ?thesis
      by (simp add: respond_def list_faqs_def get_documents_def Let_def split: option.split)
  next
    case (POST_conversations_start p)
    then show ?thesis using two [of _ p] by (simp add: respond_def)
  next
    case (POST_conversations_message c p)
    then show ?thesis using two [of _ p c] by (simp add: respond_def)
  next
    case (POST_leads x)
    have "single_open_message (Lead_doc x)" by (simp add: single_open_message_def)
    from ins [OF this, of "''lead''"] and \<open>r = _\<close> show ?thesis
      by (simp add: respond_def create_lead_def one)
  next
    case GET_leads
    then show ?thesis
      by (simp add: respond_def list_leads_def get_documents_def Let_def split: option.split)
  next
    case (POST_bookings x)
    have "single_open_message (BookingRequest_doc x)" by (simp add: single_open_message_def)
    from ins [OF this, of "''bookingrequest''"] and \<open>r = _\<close> show ?thesis
      by (simp add: respond_def request_booking_def one)
  next
    case GET_bookings
    then show ?thesis
      by (simp add: respond_def list_bookings_def get_documents_def Let_def
          split: option.split)
  qed
qed

theorem persisted_conversations_single_open_message_witness:
  "documents (snd (app keep_case (POST_conversations_start example_payload) example_store)) =
     documents example_store @
       [(''conversation'', ascii ''id0'', user_document example_payload),
        (''conversation'', ascii ''id1'', assistant_document keep_case example_payload)] \<and>
   list_all (\<lambda>(collection_name, identifier, d). single_open_message d)
       [(''conversation'', ascii ''id0'', user_document example_payload),
        (''conversation'', ascii ''id1'', assistant_document keep_case example_payload)]"
proof -
  let ?new = "[(''conversation'', ascii ''id0'', user_document example_payload),
        (''conversation'', ascii ''id1'', assistant_document keep_case example_payload)]"
  have id0: "new_id example_store (calls example_store) = ascii ''id0''"
    by (simp add: example_store_def ascii_def)
  have id1: "new_id example_store (Suc (calls example_store)) = ascii ''id1''"
    by (simp add: example_store_def ascii_def)
  note ids = id0 id1
  have d: "documents (snd (app keep_case (POST_conversations_start example_payload)
             example_store)) = documents example_store @ ?new"
    by (simp add: respond_def start_conversation_succeeds example_store_no_error ids)
  from persisted_conversations_single_open_message
    [of keep_case "POST_conversations_start example_payload" example_store]
  obtain new where
    "documents (snd (app keep_case (POST_conversations_start example_payload) example_store)) =
       documents example_store @ new"
    and "list_all (\<lambda>(collection_name, identifier, d). single_open_message d) new"
    by blast
  with d show ?thesis by simp
qed

text \<open>
  C5. \<open>add_message\<close> does not depend on its \<open>conversation_id\<close>: for the same
  request body and store, any two values of the path parameter give the same response
  and the same store. When both inserts succeed the response is the dictionary of
  \<open>reply\<close> alone, with no identifier, and the two documents appended are the user
  document and the assistant document of the request body.
\<close>

theorem add_message_ignores_conversation_id:
  "(\<forall>c1 c2. add_message U c1 p db = add_message U c2 p db) \<and>
   (\<forall>c. store_error db (calls db) = None \<and> store_error db (calls db + 1) = None \<longrightarrow>
      fst (add_message U c p db) =
        Inr [(''reply'', generate_ai_reply U (ConversationIn.message p))] \<and>
      documents (snd (add_message U c p db)) = documents db @
        [(''conversation'', new_id db (calls db), user_document p),
         (''conversation'', new_id db (calls db + 1), assistant_document U p)])"
proof (rule conjI)
  show "\<forall>c1 c2. add_message U c1 p db = add_message U c2 p db"
    unfolding add_message_eq by (intro allI refl)
  show "\<forall>c. store_error db (calls db) = None \<and> store_error db (calls db + 1) = None \<longrightarrow>
      fst (add_message U c p db) =
        Inr [(''reply'', generate_ai_reply U (ConversationIn.message p))] \<and>
      documents (snd (add_message U c p db)) = documents db @
        [(''conversation'', new_id db (calls db), user_document p),
         (''conversation'', new_id db (calls db + 1), assistant_document U p)]"
    by (simp add: add_message_succeeds)
qed

theorem add_message_ignores_conversation_id_witness:
  "store_error example_store (calls example_store) = None \<and>
   store_error example_store (calls example_store + 1) = None \<and>
   add_message keep_case (ascii ''abc'') example_payload example_store =
     add_message keep_case (ascii ''no such conversation'') example_payload example_store \<and>
   fst (add_message keep_case (ascii ''abc'') example_payload example_store) =
     Inr [(''reply'', ascii ''We are pet-friendly for select rooms. A cleaning fee may apply.'')]"
proof -
  have e: "store_error example_store (calls example_store) = None"
    "store_error example_store (calls example_store + 1) = None"
    by (rule example_store_no_error)+
  have m: "ConversationIn.message example_payload = ascii ''Do you allow pets?''"
    by (simp add: example_payload_def)
  note inst = add_message_ignores_conversation_id [of keep_case example_payload example_store]
  from inst
  have "add_message keep_case (ascii ''abc'') example_payload example_store =
          add_message keep_case (ascii ''no such conversation'') example_payload example_store"
    by blast
  moreover from inst e
  have "fst (add_message keep_case (ascii ''abc'') example_payload example_store) =
          Inr [(''reply'', generate_ai_reply keep_case (ConversationIn.message example_payload))]"
    by blast
  ultimately have "add_message keep_case (ascii ''abc'') example_payload example_store =
          add_message keep_case (ascii ''no such conversation'') example_payload example_store"
    and "fst (add_message keep_case (ascii ''abc'') example_payload example_store) =
          Inr [(''reply'', generate_ai_reply keep_case (ConversationIn.message example_payload))]"
    by simp_all
  with e show ?thesis by (simp add: m pets_reply)
qed

text \<open>
  C8. On every data route, if the first store call of the handler raises an error, the
  handler answers with status 500 and the error's text as detail, after that one call:
  the store is left as it was but for the count of calls. On the two conversation
  routes, if the first insert succeeds and the second raises an error, the handler
  answers likewise after those two calls, and the user document stays stored. A handler
  returns either its response or an \<open>HTTPException\<close>, which has status 500 and
  the text of an error of the store as detail.
\<close>

theorem store_errors_become_500:
  "(\<forall>r. store_error db (calls db) = Some e \<longrightarrow>
      app U r db =
        (Inl \<lparr>status_code = 500, detail = str_of e\<rparr>, db\<lparr>calls := calls db + 1\<rparr>)) \<and>
   (\<forall>r. (r = POST_conversations_start p \<or> r = POST_conversations_message c p) \<and>
        store_error db (calls db) = None \<and> store_error db (calls db + 1) = Some e \<longrightarrow>
      app U r db =
        (Inl \<lparr>status_code = 500, detail = str_of e\<rparr>,
         db\<lparr>calls := calls db + 2,
            documents := documents db @
              [(''conversation'', new_id db (calls db), user_document p)]\<rparr>)) \<and>
   (\<forall>r x. fst (app U r db) = Inl x \<longrightarrow>
      status_code x = 500 \<and>
      (\<exists>e'. (store_error db (calls db) = Some e' \<or>
             store_error db (calls db + 1) = Some e') \<and> detail x = str_of e'))"
proof (rule conjI [OF _ conjI]; intro allI impI)
  fix r
  assume f: "store_error db (calls db) = Some e"
  show "app U r db =
        (Inl \<lparr>status_code = 500, detail = str_of e\<rparr>, db\<lparr>calls := calls db + 1\<rparr>)"
    by (cases r)
      (simp_all add: respond_def upsert_property_def get_property_sample_def add_faq_def
        list_faqs_def create_lead_def list_leads_def request_booking_def list_bookings_def
        create_document_fails [OF f] get_documents_fails [OF f]
        start_conversation_first_fails [OF f] add_message_first_fails [OF f])
next
  fix r
  assume "(r = POST_conversations_start p \<or> r = POST_conversations_message c p) \<and>
        store_error db (calls db) = None \<and> store_error db (calls db + 1) = Some e"
  then show "app U r db =
        (Inl \<lparr>status_code = 500, detail = str_of e\<rparr>,
         db\<lparr>calls := calls db + 2,
            documents := documents db @
              [(''conversation'', new_id db (calls db), user_document p)]\<rparr>)"
    by (auto simp add: respond_def start_conversation_second_fails add_message_second_fails)
next
  fix r x
  assume x: "fst (app U r db) = Inl x"
  have single: "status_code x = 500 \<and>
      (\<exists>e'. (store_error db (calls db) = Some e' \<or>
             store_error db (calls db + 1) = Some e') \<and> detail x = str_of e')"
    if "store_error db (calls db) = Some e1"
      and "store_error db (calls db) = Some e1 \<Longrightarrow>
           fst (app U r db) = Inl \<lparr>status_code = 500, detail = str_of e1\<rparr>" for e1
  proof -
    from that x have "x = \<lparr>status_code = 500, detail = str_of e1\<rparr>" by simp
    then have "status_code x = 500" and "detail x = str_of e1" by simp_all
    with that(1) show ?thesis by blast
  qed
  show "status_code x = 500 \<and>
      (\<exists>e'. (store_error db (calls db) = Some e' \<or>
             store_error db (calls db + 1) = Some e') \<and> detail x = str_of e')"
  proof (cases "store_error db (calls db)")
    case (Some e1)
    show ?thesis
    proof (rule single [OF Some])
      show "fst (app U r db) = Inl \<lparr>status_code = 500, detail = str_of e1\<rparr>"
        by (cases r)
          (simp_all add: respond_def upsert_property_def get_property_sample_def add_faq_def
            list_faqs_def create_lead_def list_leads_def request_booking_def list_bookings_def
            create_document_fails [OF Some] get_documents_fails [OF Some]
            start_conversation_first_fails [OF Some] add_message_first_fails [OF Some])
    qed
  next
    case None
    have ok: "\<exists>y. fst (app U r db) = Inr y"
      if "\<forall>p. r \<noteq> POST_conversations_start p" "\<forall>c p. r \<noteq> POST_conversations_message c p"
      using that None
      by (cases r)
        (simp_all add: respond_def upsert_property_def get_property_sample_def add_faq_def
          list_faqs_def create_lead_def list_leads_def request_booking_def list_bookings_def
          create_document_succeeds get_documents_def Let_def)
    show ?thesis
    proof (cases "store_error db (calls db + 1)")
      case n2: None
      have "\<exists>y. fst (app U r db) = Inr y"
      proof (cases "(\<forall>p. r \<noteq> POST_conversations_start p) \<and>
                    (\<forall>c p. r \<noteq> POST_conversations_message c p)")
        case True
        then show ?thesis using ok by blast
      next
        case False
        then show ?thesis
          by (auto simp add: respond_def start_conversation_succeeds [OF None n2]
              add_message_succeeds [OF None n2])
      qed
      with x show ?thesis by simp
    next
      case (Some e2)
      show ?thesis
      proof (cases "(\<forall>p. r \<noteq> POST_conversations_start p) \<and>
                    (\<forall>c p. r \<noteq> POST_conversations_message c p)")
        case True
        then have "\<exists>y. fst (app U r db) = Inr y" using ok by blast
        with x show ?thesis by simp
      next
        case False
        then have "fst (app U r db) = Inl \<lparr>status_code = 500, detail = str_of e2\<rparr>"
          by (auto simp add: respond_def start_conversation_second_fails [OF None Some]
              add_message_second_fails [OF None Some])
        with x have "x = \<lparr>status_code = 500, detail = str_of e2\<rparr>" by simp
        then have "status_code x = 500" and "detail x = str_of e2" by simp_all
        with Some show ?thesis by blast
      qed
    qed
  qed
qed

theorem store_errors_become_500_witness:
  "store_error example_unavailable_store (calls example_unavailable_store) =
     Some (StorageUnavailable (ascii ''Database not available'')) \<and>
   app keep_case GET_faqs example_unavailable_store =
     (Inl \<lparr>status_code = 500, detail = ascii ''Database not available''\<rparr>,
      example_unavailable_store\<lparr>calls := 1\<rparr>) \<and>
   store_error example_failing_store (calls example_failing_store) = None \<and>
   store_error example_failing_store (calls example_failing_store + 1) =
     Some (StorageError (ascii ''insert failed'')) \<and>
   app keep_case (POST_conversations_start example_payload) example_failing_store =
     (Inl \<lparr>status_code = 500, detail = ascii ''insert failed''\<rparr>,
      example_failing_store
        \<lparr>calls := 2,
         documents := [(''conversation'', ascii ''id0'', user_document example_payload)]\<rparr>)"
proof -
  have u: "store_error example_unavailable_store (calls example_unavailable_store) =
     Some (StorageUnavailable (ascii ''Database not available''))"
    by (simp add: store_error_def example_unavailable_store_def example_store_def)
  have f1: "store_error example_failing_store (calls example_failing_store) = None"
    by (simp add: store_error_def example_failing_store_def example_store_def)
  have f2: "store_error example_failing_store (calls example_failing_store + 1) =
     Some (StorageError (ascii ''insert failed''))"
    by (simp add: store_error_def example_failing_store_def example_store_def)
  have c: "calls example_unavailable_store = 0" "calls example_failing_store = 0"
    "documents example_failing_store = []"
    "new_id example_failing_store 0 = ascii ''id0''"
    by (simp_all add: example_unavailable_store_def example_failing_store_def
        example_store_def ascii_def)
  note first = store_errors_become_500 [of example_unavailable_store
      "StorageUnavailable (ascii ''Database not available'')" keep_case example_payload "[]"]
  note second = store_errors_become_500 [of example_failing_store
      "StorageError (ascii ''insert failed'')" keep_case example_payload "[]"]
  from first u
  have "app keep_case GET_faqs example_unavailable_store =
     (Inl \<lparr>status_code = 500,
           detail = str_of (StorageUnavailable (ascii ''Database not available''))\<rparr>,
      example_unavailable_store\<lparr>calls := calls example_unavailable_store + 1\<rparr>)"
    by blast
  moreover from second f1 f2
  have "app keep_case (POST_conversations_start example_payload) example_failing_store =
     (Inl \<lparr>status_code = 500, detail = str_of (StorageError (ascii ''insert failed''))\<rparr>,
      example_failing_store
        \<lparr>calls := calls example_failing_store + 2,
         documents := documents example_failing_store @
           [(''conversation'', new_id example_failing_store (calls example_failing_store),
             user_document example_payload)]\<rparr>)"
    by blast
  ultimately show ?thesis using u f1 f2 by (simp add: c)
qed

text \<open>
  C10. When both inserts succeed, on either conversation route, the second document
  stored is the assistant's: its single message has role assistant, the generated reply
  as content, and the \<open>lang\<close> of the request, absent when the request has none.
\<close>

theorem assistant_message_carries_request_lang:
  assumes "store_error db (calls db) = None" and "store_error db (calls db + 1) = None"
  shows "(\<exists>u a. documents (snd (start_conversation U p db)) = documents db @
              [u, (''conversation'', new_id db (calls db + 1), Conversation_doc a)] \<and>
            Conversation.messages a =
              [\<lparr>ConversationMessage.role = Role_assistant,
                ConversationMessage.content = generate_ai_reply U (ConversationIn.message p),
                ConversationMessage.lang = ConversationIn.lang p\<rparr>]) \<and>
         (\<exists>u a. documents (snd (add_message U c p db)) = documents db @
              [u, (''conversation'', new_id db (calls db + 1), Conversation_doc a)] \<and>
            Conversation.messages a =
              [\<lparr>ConversationMessage.role = Role_assistant,
                ConversationMessage.content = generate_ai_reply U (ConversationIn.message p),
                ConversationMessage.lang = ConversationIn.lang p\<rparr>])"
  by (simp add: start_conversation_succeeds [OF assms] add_message_succeeds [OF assms]
      assistant_document_def)

theorem assistant_message_carries_request_lang_witness:
  "store_error example_store (calls example_store) = None \<and>
   store_error example_store (calls example_store + 1) = None \<and>
   ConversationIn.lang example_payload = Some (ascii ''en'') \<and>
   (\<exists>u a. documents (snd (add_message keep_case (ascii ''abc'') example_payload example_store)) =
            [u, (''conversation'', ascii ''id1'', Conversation_doc a)] \<and>
          map ConversationMessage.lang (Conversation.messages a) = [Some (ascii ''en'')])"
proof -
  have e: "store_error example_store (calls example_store) = None"
    "store_error example_store (calls example_store + 1) = None"
    by (rule example_store_no_error)+
  have l: "ConversationIn.lang example_payload = Some (ascii ''en'')"
    by (simp add: example_payload_def)
  have d: "documents example_store = []"
    "new_id example_store (Suc (calls example_store)) = ascii ''id1''"
    by (simp_all add: example_store_def ascii_def)
  from assistant_message_carries_request_lang [OF e, of keep_case example_payload "ascii ''abc''"]
  obtain u a where
    "documents (snd (add_message keep_case (ascii ''abc'') example_payload example_store)) =
       documents example_store @
         [u, (''conversation'', new_id example_store (calls example_store + 1),
              Conversation_doc a)]"
    and "Conversation.messages a =
       [\<lparr>ConversationMessage.role = Role_assistant,
         ConversationMessage.content =
           generate_ai_reply keep_case (ConversationIn.message example_payload),
         ConversationMessage.lang = ConversationIn.lang example_payload\<rparr>]"
    by blast
  then have "documents (snd (add_message keep_case (ascii ''abc'') example_payload
               example_store)) = [u, (''conversation'', ascii ''id1'', Conversation_doc a)] \<and>
          map ConversationMessage.lang (Conversation.messages a) = [Some (ascii ''en'')]"
    by (simp add: d l)
  then have "\<exists>u a. documents (snd (add_message keep_case (ascii ''abc'') example_payload
               example_store)) = [u, (''conversation'', ascii ''id1'', Conversation_doc a)] \<and>
          map ConversationMessage.lang (Conversation.messages a) = [Some (ascii ''en'')]"
    by iprover
  with e l show ?thesis by simp
qed

end
